theory Spec2Isabelle
  imports Main "HOL-Library.Word"
begin

section \<open>JavaScript strings and values used by the route\<close>

text \<open>
  The route handler of \<^verbatim>\<open>src/app/api/google.ts\<close> works on header values, URL parts and
  byte chunks. Strings are \<^typ>\<open>string\<close>; a value that may be \<^verbatim>\<open>null\<close> or
  \<^verbatim>\<open>undefined\<close> is a \<^typ>\<open>string option\<close>; a \<^verbatim>\<open>Uint8Array\<close> is a list of bytes.
\<close>

type_synonym bytes = "8 word list"

text \<open>Truthiness of a string-or-null, and the operators \<^verbatim>\<open>a || b\<close> and \<^verbatim>\<open>a ?? b\<close>.\<close>

definition truthy :: "string option \<Rightarrow> bool" where
  "truthy v = (case v of None \<Rightarrow> False | Some s \<Rightarrow> s \<noteq> [])"

definition js_or :: "string option \<Rightarrow> string option \<Rightarrow> string option" where
  "js_or a b = (if truthy a then a else b)"

definition or_default :: "string option \<Rightarrow> string \<Rightarrow> string" where
  "or_default a d = (if truthy a then the a else d)"

definition nullish_default :: "string option \<Rightarrow> string \<Rightarrow> string" where
  "nullish_default a d = (case a of None \<Rightarrow> d | Some s \<Rightarrow> s)"

text \<open>\<^verbatim>\<open>String.prototype.trim\<close> on the code units a header value can hold.\<close>

definition is_space :: "char \<Rightarrow> bool" where
  "is_space c = (c \<in> set [CHR 0x09, CHR 0x0A, CHR 0x0B, CHR 0x0C, CHR 0x0D, CHR 0x20, CHR 0xA0])"

definition trim :: "string \<Rightarrow> string" where
  "trim s = rev (dropWhile is_space (rev (dropWhile is_space s)))"

definition startsWith :: "string \<Rightarrow> string \<Rightarrow> bool" where
  "startsWith s p = (take (length p) s = p)"

definition endsWith :: "string \<Rightarrow> string \<Rightarrow> bool" where
  "endsWith s p = (length p \<le> length s \<and> drop (length s - length p) s = p)"

text \<open>
  \<^verbatim>\<open>s.replaceAll(pat, rep)\<close>: every occurrence, left to right, without overlap. The
  third argument of the helper is what is left to skip of an occurrence just replaced.
\<close>

fun replaceAll_from :: "string \<Rightarrow> string \<Rightarrow> string \<Rightarrow> string \<Rightarrow> string" where
  "replaceAll_from pat rep skip [] = []"
| "replaceAll_from pat rep (k # skip) (c # cs) = replaceAll_from pat rep skip cs"
| "replaceAll_from pat rep [] (c # cs) =
     (if startsWith (c # cs) pat then rep @ replaceAll_from pat rep (tl pat) cs
      else c # replaceAll_from pat rep [] cs)"

definition replaceAll :: "string \<Rightarrow> string \<Rightarrow> string \<Rightarrow> string" where
  "replaceAll s pat rep =
     (if pat = [] then rep @ concat (map (\<lambda>c. c # rep) s) else replaceAll_from pat rep [] s)"

text \<open>\<^verbatim>\<open>s.replace(pat, rep)\<close> with a string pattern: the first occurrence only.\<close>

fun replace :: "string \<Rightarrow> string \<Rightarrow> string \<Rightarrow> string" where
  "replace [] pat rep = (if pat = [] then rep else [])"
| "replace (c # cs) pat rep =
     (if startsWith (c # cs) pat then rep @ drop (length pat) (c # cs)
      else c # replace cs pat rep)"

text \<open>The decimal text of a number in a template string, as for \<^verbatim>\<open>${res.status}\<close>.\<close>

fun show_nat :: "nat \<Rightarrow> string" where
  "show_nat n =
     (if n < 10 then [''0123456789'' ! n]
      else show_nat (n div 10) @ [''0123456789'' ! (n mod 10)])"

text \<open>
  A \<^verbatim>\<open>Headers\<close> object stores its names in lower case and \<^verbatim>\<open>get\<close> lowers the name it
  is asked for; \<^verbatim>\<open>URLSearchParams.get\<close> returns the first value of a name.
\<close>

type_synonym Headers = "(string \<times> string) list"

definition to_lower :: "char \<Rightarrow> char" where
  "to_lower c =
     (case map_of (zip ''ABCDEFGHIJKLMNOPQRSTUVWXYZ'' ''abcdefghijklmnopqrstuvwxyz'') c of
        Some d \<Rightarrow> d
      | None \<Rightarrow> c)"

definition headers_get :: "Headers \<Rightarrow> string \<Rightarrow> string option" where
  "headers_get hs name = map_of hs (map to_lower name)"

definition searchParams_get :: "(string \<times> string) list \<Rightarrow> string \<Rightarrow> string option" where
  "searchParams_get ps name = map_of ps name"

text \<open>
  The chunks of the second copy of the route (\<^verbatim>\<open>src/unnamed/part_000\<close>) are typed
  \<^verbatim>\<open>any\<close> and read with property accesses, so that copy needs JavaScript values:
  a property read of \<^verbatim>\<open>undefined\<close> or \<^verbatim>\<open>null\<close> throws a \<^verbatim>\<open>TypeError\<close>, a missing
  property is \<^verbatim>\<open>undefined\<close>, and \<^verbatim>\<open>?.\<close> yields \<^verbatim>\<open>undefined\<close> instead of throwing.
\<close>

datatype js_error = Error string | TypeError string | AbortError

datatype jsval =
    JUndefined
  | JNull
  | JBool bool
  | JNum int
  | JStr string
  | JUint8Array bytes
  | JArray "jsval list"
  | JObject "(string \<times> jsval) list"

fun js_truthy :: "jsval \<Rightarrow> bool" where
  "js_truthy JUndefined = False"
| "js_truthy JNull = False"
| "js_truthy (JBool b) = b"
| "js_truthy (JNum n) = (n \<noteq> 0)"
| "js_truthy (JStr s) = (s \<noteq> [])"
| "js_truthy (JUint8Array b) = True"
| "js_truthy (JArray xs) = True"
| "js_truthy (JObject kvs) = True"

fun get_prop :: "jsval \<Rightarrow> string \<Rightarrow> js_error + jsval" where
  "get_prop JUndefined name = Inl (TypeError ''Cannot read properties of undefined'')"
| "get_prop JNull name = Inl (TypeError ''Cannot read properties of null'')"
| "get_prop (JObject kvs) name = Inr (case map_of kvs name of Some v \<Rightarrow> v | None \<Rightarrow> JUndefined)"
| "get_prop v name = Inr JUndefined"

fun index0 :: "jsval \<Rightarrow> js_error + jsval" where
  "index0 JUndefined = Inl (TypeError ''Cannot read properties of undefined'')"
| "index0 JNull = Inl (TypeError ''Cannot read properties of null'')"
| "index0 (JArray xs) = Inr (case xs of [] \<Rightarrow> JUndefined | x # _ \<Rightarrow> x)"
| "index0 (JUint8Array b) = Inr (case b of [] \<Rightarrow> JUndefined | x # _ \<Rightarrow> JNum (uint x))"
| "index0 (JStr s) = Inr (case s of [] \<Rightarrow> JUndefined | c # _ \<Rightarrow> JStr [c])"
| "index0 (JObject kvs) = Inr (case map_of kvs ''0'' of Some v \<Rightarrow> v | None \<Rightarrow> JUndefined)"
| "index0 v = Inr JUndefined"

fun opt_prop :: "jsval \<Rightarrow> string \<Rightarrow> js_error + jsval" where
  "opt_prop JUndefined name = Inr JUndefined"
| "opt_prop JNull name = Inr JUndefined"
| "opt_prop v name = get_prop v name"

section \<open>The request, the configuration and the collaborators\<close>

record NextRequest =
  req_method :: string
  headers :: Headers
  pathname :: string
  searchParams :: "(string \<times> string) list"
  body :: "bytes option"

text \<open>
  \<^verbatim>\<open>serverConfig\<close> comes from \<^verbatim>\<open>getServerSideConfig()\<close>, the two constants from
  \<^verbatim>\<open>@/app/constant\<close>; neither file is part of the sources, so they are parameters.
  \<^verbatim>\<open>auth(req, ModelProvider.GeminiPro)\<close>, from \<^verbatim>\<open>./auth\<close>, is a parameter too. It is
  handed the request object itself, whose headers it can write before the handler reads
  them, so it is a function from the request to its result object and the request as it
  leaves it.
\<close>

record serverConfig =
  googleApiKey :: "string option"
  googleUrl :: "string option"

record constants =
  ApiPath_Google :: string
  GEMINI_BASE_URL :: string

record auth_result =
  error :: bool
  msg :: string

section \<open>Responses, frames and effects\<close>

text \<open>
  The upstream response \<^verbatim>\<open>res\<close> of \<^verbatim>\<open>fetch\<close>: its status line and whether it has a
  body stream (\<^verbatim>\<open>res.body\<close> is \<^verbatim>\<open>null\<close> for a response without one).
\<close>

record res =
  status :: nat
  statusText :: string
  body_is_null :: bool

definition ok :: "res \<Rightarrow> bool" where
  "ok r = (200 \<le> status r \<and> status r \<le> 299)"

text \<open>
  What the handler returns to the client: a JSON reply
  (\<^verbatim>\<open>NextResponse.json(value, {status})\<close>) or the readable side of the transform
  stream (\<^verbatim>\<open>new Response(responseStream, {status: 200, headers})\<close>).
\<close>

datatype response_body =
    JsonOk
  | JsonAuth auth_result
  | JsonError bool string
  | ReadableStream

record Response =
  code :: nat
  response_headers :: Headers
  content :: response_body

text \<open>
  One constructor per \<^verbatim>\<open>writer.write\<close> call of the two files, holding the values the
  template string interpolates:
  \<^item> \<open>KeepAliveComment\<close>: \<^verbatim>\<open>': Waiting...\n\n'\<close> (google.ts line 137);
  \<^item> \<open>Heartbeat writeString\<close>: the \<^verbatim>\<open>data: {"candidates":[...{"text":"${writeString}"}...\<close>
    frame of line 150;
  \<^item> \<open>UpstreamError message body\<close>: the candidates frame of line 163 around
    \<^verbatim>\<open>JSON.stringify({error: true, message, body}, null, 2)\<close>;
  \<^item> \<open>TimeCost fresh ms\<close>: the candidates frame of line 195 with the text
    \<^verbatim>\<open>(time cost: ${ms / 1000}s)\<close>, prefixed by \<^verbatim>\<open>> \<close> when \<open>fresh\<close>;
  \<^item> \<open>Relayed value\<close>: the write of line 204,
    \<^verbatim>\<open>encoder.encode(decoder.decode(value, {stream: true}))\<close>. The frame holds the chunk
    \<open>value\<close> that was read, not the bytes written: the decoder keeps state between
    calls and is never flushed, so it can hold back an incomplete sequence, replace
    malformed input and drop a byte order mark;
  \<^item> \<open>CatchFrame e\<close>: \<^verbatim>\<open>data: ${JSON.stringify({error: true, message: e.message})}\<close>
    (line 211);
  \<^item> \<open>WaitingLine\<close>: \<^verbatim>\<open>"Waiting...\n"\<close> (part_000 line 126);
  \<^item> \<open>TextFrame text\<close>: \<^verbatim>\<open>data: ${JSON.stringify({ text })}\<close> (part_000 line 154).
\<close>

datatype frame =
    KeepAliveComment
  | Heartbeat string
  | UpstreamError string string
  | TimeCost bool int
  | Relayed bytes
  | CatchFrame js_error
  | WaitingLine
  | TextFrame jsval

fun is_heartbeat :: "frame \<Rightarrow> bool" where
  "is_heartbeat KeepAliveComment = True"
| "is_heartbeat (Heartbeat w) = True"
| "is_heartbeat WaitingLine = True"
| "is_heartbeat f = False"

fun is_error_frame :: "frame \<Rightarrow> bool" where
  "is_error_frame (UpstreamError m b) = True"
| "is_error_frame (CatchFrame e) = True"
| "is_error_frame f = False"

fun is_relayed :: "frame \<Rightarrow> bool" where
  "is_relayed (Relayed v) = True"
| "is_relayed f = False"

datatype timer = TimeoutId | IntervalId | IntervalRealWrite

record RequestInit =
  init_headers :: Headers
  init_method :: string
  init_body :: "bytes option"
  redirect :: string
  duplex :: string

datatype effect =
    CallAuth
  | SetTimeout timer nat
  | SetInterval timer nat
  | NewTransformStream
  | Fetch string RequestInit
  | Write frame
  | Close
  | ClearTimeout timer
  | ClearInterval timer
  | Abort
  | Unhandled js_error

text \<open>
  The client reads what was written before the writer was closed; a write to a closed
  writer is rejected.
\<close>

fun output_stream :: "effect list \<Rightarrow> frame list" where
  "output_stream [] = []"
| "output_stream (Write f # es) = f # output_stream es"
| "output_stream (Close # es) = []"
| "output_stream (e # es) = output_stream es"

fun closes :: "effect list \<Rightarrow> nat" where
  "closes [] = 0"
| "closes (Close # es) = Suc (closes es)"
| "closes (e # es) = closes es"

text \<open>
  The timers that are pending after a trace, and the check that no timer is pending
  whenever the writer is closed. The deadline timer is one-shot: it is gone once its
  callback (\<open>Abort\<close>) has run.
\<close>

fun pending :: "timer set \<Rightarrow> effect list \<Rightarrow> timer set" where
  "pending T [] = T"
| "pending T (SetTimeout t n # es) = pending (insert t T) es"
| "pending T (SetInterval t n # es) = pending (insert t T) es"
| "pending T (ClearTimeout t # es) = pending (T - {t}) es"
| "pending T (ClearInterval t # es) = pending (T - {t}) es"
| "pending T (Abort # es) = pending (T - {TimeoutId}) es"
| "pending T (e # es) = pending T es"

fun closed_clean :: "timer set \<Rightarrow> effect list \<Rightarrow> bool" where
  "closed_clean T [] = True"
| "closed_clean T (Close # es) = (T = {} \<and> closed_clean T es)"
| "closed_clean T (e # es) = closed_clean (pending T [e]) es"

section \<open>The relay session\<close>

text \<open>
  The asynchronous function started by \<^verbatim>\<open>request\<close> runs on one event loop. Between two
  events it is suspended at one of its \<^verbatim>\<open>await\<close>s, the program counter \<open>pc\<close>; the
  session holds the variables of the closure, the wall clock, the timers the runtime
  still has scheduled (\<open>live\<close>) and the trace of effects so far.
\<close>

datatype pc = AwaitFetch | AwaitText res | AwaitRead | Finished

record session =
  pc :: pc
  intervalId :: "timer option"
  intervalRealWrite :: "timer option"
  intervalRealWrite_wrote :: bool
  isFirstChunk :: bool
  nowTime :: int
  clock :: int
  live :: "timer set"
  trace :: "effect list"

text \<open>
  What the environment can do to a session: an interval or the deadline timer fires,
  time passes, or the promise the function awaits settles. An event that cannot happen
  in the current state (a timer that is not scheduled, a promise nobody awaits) leaves
  the session as it is. \<open>'c\<close> is what a read of the upstream body yields.
\<close>

datatype 'c event =
    Tick
  | Deadline
  | Elapse nat
  | FetchResolved res
  | FetchRejected js_error
  | TextResolved string
  | TextRejected js_error
  | ReadResolved 'c bool
  | ReadRejected js_error

definition writer_write :: "frame \<Rightarrow> session \<Rightarrow> session" where
  "writer_write f s = s\<lparr>trace := trace s @ [Write f]\<rparr>"

definition writer_close :: "session \<Rightarrow> session" where
  "writer_close s = s\<lparr>trace := trace s @ [Close]\<rparr>"

definition clearTimeout :: "timer \<Rightarrow> session \<Rightarrow> session" where
  "clearTimeout t s = s\<lparr>live := live s - {t}, trace := trace s @ [ClearTimeout t]\<rparr>"

definition clearInterval :: "timer \<Rightarrow> session \<Rightarrow> session" where
  "clearInterval t s = s\<lparr>live := live s - {t}, trace := trace s @ [ClearInterval t]\<rparr>"

definition controller_abort :: "session \<Rightarrow> session" where
  "controller_abort s = s\<lparr>live := live s - {TimeoutId}, trace := trace s @ [Abort]\<rparr>"

definition out :: "session \<Rightarrow> frame list" where
  "out s = output_stream (trace s)"

section \<open>\<^verbatim>\<open>handle\<close> and \<^verbatim>\<open>request\<close> of google.ts\<close>

definition USE_INTERVAL_REAL_WRITE :: bool where
  "USE_INTERVAL_REAL_WRITE = True"

definition HEARTBEAT_INTERVAL :: nat where
  "HEARTBEAT_INTERVAL = 2 * 1000"

definition timeout_delay :: nat where
  "timeout_delay = 10 * 60 * 1000"

definition baseUrl :: "constants \<Rightarrow> serverConfig \<Rightarrow> string" where
  "baseUrl C cfg =
     (let b0 = or_default (googleUrl cfg) (GEMINI_BASE_URL C);
          b1 = (if \<not> startsWith b0 ''http'' then ''https://'' @ b0 else b0)
      in if endsWith b1 ''/'' then butlast b1 else b1)"

definition path :: "constants \<Rightarrow> NextRequest \<Rightarrow> string" where
  "path C req = replaceAll (pathname req) (ApiPath_Google C) ''''"

definition fetchUrl :: "constants \<Rightarrow> serverConfig \<Rightarrow> NextRequest \<Rightarrow> string" where
  "fetchUrl C cfg req =
     baseUrl C cfg @ path C req @
     (if searchParams_get (searchParams req) ''alt'' = Some ''sse'' then ''?alt=sse'' else '''')"

definition fetchOptions :: "NextRequest \<Rightarrow> RequestInit" where
  "fetchOptions req =
     \<lparr>init_headers =
        [(''Content-Type'', ''application/json''),
         (''Cache-Control'', ''no-store''),
         (''x-goog-api-key'',
          or_default (headers_get (headers req) ''x-goog-api-key'')
            (replace (nullish_default (headers_get (headers req) ''Authorization'') '''')
               ''Bearer '' ''''))],
      init_method = req_method req,
      init_body = body req,
      redirect = ''manual'',
      duplex = ''half''\<rparr>"

definition stream_headers :: Headers where
  "stream_headers =
     [(''Content-Type'', ''text/event-stream''),
      (''Cache-Control'', ''no-cache''),
      (''Connection'', ''keep-alive'')]"

text \<open>
  \<^verbatim>\<open>request(req, apiKey)\<close> up to its \<^verbatim>\<open>return\<close>: the deadline timer, the transform
  stream, the heartbeat interval, and the asynchronous function run to its first
  \<^verbatim>\<open>await\<close>, the \<^verbatim>\<open>fetch\<close>. \<open>now\<close> is \<^verbatim>\<open>Date.now()\<close>. The source never reads its
  parameter \<^verbatim>\<open>apiKey\<close>, and neither does the model.
\<close>

definition request ::
  "constants \<Rightarrow> serverConfig \<Rightarrow> int \<Rightarrow> NextRequest \<Rightarrow> string \<Rightarrow> Response \<times> session" where
  "request C cfg now req apiKey =
     (let ticker = (if \<not> USE_INTERVAL_REAL_WRITE then IntervalId else IntervalRealWrite) in
      (\<lparr>code = 200, response_headers = stream_headers, content = ReadableStream\<rparr>,
       \<lparr>pc = AwaitFetch,
        intervalId = (if \<not> USE_INTERVAL_REAL_WRITE then Some IntervalId else None),
        intervalRealWrite = (if \<not> USE_INTERVAL_REAL_WRITE then None else Some IntervalRealWrite),
        intervalRealWrite_wrote = False,
        isFirstChunk = True,
        nowTime = now,
        clock = now,
        live = {TimeoutId, ticker},
        trace =
          [SetTimeout TimeoutId timeout_delay,
           NewTransformStream,
           SetInterval ticker HEARTBEAT_INTERVAL,
           Fetch (fetchUrl C cfg req) (fetchOptions req)]\<rparr>))"

text \<open>
  \<^verbatim>\<open>handle\<close>. Its result is the response, the effects of the call in order, and the
  relay session it leaves running, if any. The method is tested on the request as it
  came in; the headers, and everything \<^verbatim>\<open>request\<close> reads, are those of the request as
  \<^verbatim>\<open>auth\<close> left it. \<^verbatim>\<open>request\<close> throws nothing before it returns, so the \<^verbatim>\<open>catch\<close>
  around it has no branch here.
\<close>

record handled =
  response :: Response
  effects :: "effect list"
  relay :: "session option"

definition json_headers :: Headers where
  "json_headers = [(''content-type'', ''application/json'')]"

definition bearToken :: "NextRequest \<Rightarrow> string" where
  "bearToken req =
     or_default
       (js_or (headers_get (headers req) ''x-goog-api-key'')
          (headers_get (headers req) ''Authorization''))
       ''''"

definition token :: "NextRequest \<Rightarrow> string" where
  "token req = trim (replaceAll (trim (bearToken req)) ''Bearer '' '''')"

definition apiKey :: "serverConfig \<Rightarrow> NextRequest \<Rightarrow> string option" where
  "apiKey cfg req = (if token req \<noteq> [] then Some (token req) else googleApiKey cfg)"

definition handle ::
  "constants \<Rightarrow> serverConfig \<Rightarrow> (NextRequest \<Rightarrow> auth_result \<times> NextRequest) \<Rightarrow> int \<Rightarrow>
     NextRequest \<Rightarrow> handled" where
  "handle C cfg auth now req0 =
     (if req_method req0 = ''OPTIONS'' then
        \<lparr>response = \<lparr>code = 200, response_headers = json_headers, content = JsonOk\<rparr>,
         effects = [], relay = None\<rparr>
      else
        let (authResult, req) = auth req0 in
        if error authResult then
          \<lparr>response = \<lparr>code = 401, response_headers = json_headers, content = JsonAuth authResult\<rparr>,
           effects = [CallAuth], relay = None\<rparr>
        else if \<not> truthy (apiKey cfg req) then
          \<lparr>response =
             \<lparr>code = 401, response_headers = json_headers,
              content = JsonError True ''missing GOOGLE_API_KEY in server env vars''\<rparr>,
           effects = [CallAuth], relay = None\<rparr>
        else
          let (r, s) = request C cfg now req (the (apiKey cfg req)) in
          \<lparr>response = r, effects = CallAuth # trace s, relay = Some s\<rparr>)"

section \<open>The asynchronous relay of google.ts\<close>

text \<open>The two interval callbacks (lines 136-139 and 144-152).\<close>

definition silent_tick :: "session \<Rightarrow> session" where
  "silent_tick s = writer_write KeepAliveComment s"

definition real_write_tick :: "session \<Rightarrow> session" where
  "real_write_tick s =
     (let writeString = (if \<not> intervalRealWrite_wrote s then ''> Waiting.'' else ''.'')
      in writer_write (Heartbeat writeString) (s\<lparr>intervalRealWrite_wrote := True\<rparr>))"

text \<open>
  Stopping the ticker: \<^verbatim>\<open>if (id) { clearInterval(id); id = null; }\<close>, written out at
  the first chunk (lines 178-189) and again in the \<^verbatim>\<open>finally\<close> block (lines 217-231).
\<close>

definition stop_intervalId :: "session \<Rightarrow> session" where
  "stop_intervalId s =
     (case intervalId s of None \<Rightarrow> s | Some t \<Rightarrow> (clearInterval t s)\<lparr>intervalId := None\<rparr>)"

definition stop_intervalRealWrite :: "session \<Rightarrow> session" where
  "stop_intervalRealWrite s =
     (case intervalRealWrite s of
        None \<Rightarrow> s
      | Some t \<Rightarrow> (clearInterval t s)\<lparr>intervalRealWrite := None\<rparr>)"

definition stop_ticker :: "session \<Rightarrow> session" where
  "stop_ticker s =
     (if \<not> USE_INTERVAL_REAL_WRITE then stop_intervalId s else stop_intervalRealWrite s)"

text \<open>The head of the copy loop (lines 175-200), run before every read.\<close>

definition first_chunk :: "session \<Rightarrow> session" where
  "first_chunk s =
     (if isFirstChunk s then
        let s1 = s\<lparr>isFirstChunk := False\<rparr> in
        if \<not> USE_INTERVAL_REAL_WRITE then stop_intervalId s1
        else
          let s2 = stop_intervalRealWrite s1;
              writeTime = clock s2 - nowTime s2
          in writer_write (TimeCost (\<not> intervalRealWrite_wrote s2) writeTime) s2
      else s)"

definition catch_block :: "js_error \<Rightarrow> session \<Rightarrow> session" where
  "catch_block e s = writer_write (CatchFrame e) s"

definition finally_block :: "session \<Rightarrow> session" where
  "finally_block s = (writer_close (stop_ticker (clearTimeout TimeoutId s)))\<lparr>pc := Finished\<rparr>"

definition upstream_failed :: "res \<Rightarrow> js_error" where
  "upstream_failed r = Error (''[Alive] Upstream fetch failed with status '' @ show_nat (status r))"

definition upstream_error_frame :: "res \<Rightarrow> string \<Rightarrow> frame" where
  "upstream_error_frame r errorBody =
     UpstreamError (''Upstream Error: '' @ show_nat (status r) @ '' '' @ statusText r) errorBody"

text \<open>
  One event. When the deadline timer fires, \<^verbatim>\<open>controller.abort()\<close> rejects the promise
  the function is waiting for with an \<^verbatim>\<open>AbortError\<close>, and that rejection is handled
  before any other timer callback runs.
\<close>

fun step :: "bytes option event \<Rightarrow> session \<Rightarrow> session" where
  "step Tick s =
     (let s1 = (if IntervalId \<in> live s then silent_tick s else s)
      in if IntervalRealWrite \<in> live s1 then real_write_tick s1 else s1)"
| "step (Elapse d) s = s\<lparr>clock := clock s + int d\<rparr>"
| "step Deadline s =
     (if TimeoutId \<in> live s then
        let s1 = controller_abort s in
        if pc s1 = Finished then s1 else finally_block (catch_block AbortError s1)
      else s)"
| "step (FetchResolved r) s =
     (case pc s of
        AwaitFetch \<Rightarrow>
          if \<not> ok r then s\<lparr>pc := AwaitText r\<rparr>
          else if body_is_null r then
            finally_block (catch_block (TypeError ''Cannot read properties of null'') s)
          else (first_chunk (s\<lparr>isFirstChunk := True\<rparr>))\<lparr>pc := AwaitRead\<rparr>
      | _ \<Rightarrow> s)"
| "step (FetchRejected e) s =
     (case pc s of AwaitFetch \<Rightarrow> finally_block (catch_block e s) | _ \<Rightarrow> s)"
| "step (TextResolved errorBody) s =
     (case pc s of
        AwaitText r \<Rightarrow>
          finally_block
            (catch_block (upstream_failed r) (writer_write (upstream_error_frame r errorBody) s))
      | _ \<Rightarrow> s)"
| "step (TextRejected e) s =
     (case pc s of AwaitText r \<Rightarrow> finally_block (catch_block e s) | _ \<Rightarrow> s)"
| "step (ReadResolved v isDone) s =
     (case pc s of
        AwaitRead \<Rightarrow>
          let s1 = (case v of None \<Rightarrow> s | Some chunk \<Rightarrow> writer_write (Relayed chunk) s)
          in if isDone then finally_block s1 else first_chunk s1
      | _ \<Rightarrow> s)"
| "step (ReadRejected e) s =
     (case pc s of AwaitRead \<Rightarrow> finally_block (catch_block e s) | _ \<Rightarrow> s)"

definition run :: "bytes option event list \<Rightarrow> session \<Rightarrow> session" where
  "run evs s = fold step evs s"

section \<open>The asynchronous relay of part_000\<close>

text \<open>
  The second copy of the route has the same \<^verbatim>\<open>handle\<close> and the same lines up to
  \<^verbatim>\<open>fetchOptions\<close>; it has one interval, no \<^verbatim>\<open>catch\<close> block and no test of
  \<^verbatim>\<open>res.ok\<close>, and its loop reads \<^verbatim>\<open>chunk.choices[0]?.delta?.content\<close>. An exception
  leaves the function after the \<^verbatim>\<open>finally\<close> block, as an unhandled rejection.
\<close>

definition request_part000 ::
  "constants \<Rightarrow> serverConfig \<Rightarrow> int \<Rightarrow> NextRequest \<Rightarrow> string \<Rightarrow> Response \<times> session" where
  "request_part000 C cfg now req key =
     (\<lparr>code = 200, response_headers = stream_headers, content = ReadableStream\<rparr>,
      \<lparr>pc = AwaitFetch,
       intervalId = Some IntervalId,
       intervalRealWrite = None,
       intervalRealWrite_wrote = False,
       isFirstChunk = True,
       nowTime = now,
       clock = now,
       live = {TimeoutId, IntervalId},
       trace =
         [SetTimeout TimeoutId timeout_delay,
          NewTransformStream,
          SetInterval IntervalId 2000,
          Fetch (fetchUrl C cfg req) (fetchOptions req)]\<rparr>)"

definition finally_part000 :: "session \<Rightarrow> session" where
  "finally_part000 s =
     (let s1 = clearTimeout TimeoutId s;
          s2 = (case intervalId s1 of None \<Rightarrow> s1 | Some t \<Rightarrow> clearInterval t s1)
      in (writer_close s2)\<lparr>pc := Finished\<rparr>)"

definition throw_part000 :: "js_error \<Rightarrow> session \<Rightarrow> session" where
  "throw_part000 e s = (let s1 = finally_part000 s in s1\<lparr>trace := trace s1 @ [Unhandled e]\<rparr>)"

definition chunk_text :: "jsval \<Rightarrow> js_error + jsval" where
  "chunk_text chunk =
     (case get_prop chunk ''choices'' of
        Inl e \<Rightarrow> Inl e
      | Inr choices \<Rightarrow>
          (case index0 choices of
             Inl e \<Rightarrow> Inl e
           | Inr choice \<Rightarrow>
               (case opt_prop choice ''delta'' of
                  Inl e \<Rightarrow> Inl e
                | Inr delta \<Rightarrow>
                    (case opt_prop delta ''content'' of
                       Inl e \<Rightarrow> Inl e
                     | Inr c \<Rightarrow> Inr (if js_truthy c then c else JStr '''')))))"

definition loop_body_part000 :: "jsval \<Rightarrow> session \<Rightarrow> session" where
  "loop_body_part000 chunk s =
     (let s1 = (if isFirstChunk s then
                  (case intervalId s of None \<Rightarrow> s | Some t \<Rightarrow> clearInterval t s)
                  \<lparr>isFirstChunk := False\<rparr>
                else s)
      in case chunk_text chunk of
           Inl e \<Rightarrow> throw_part000 e s1
         | Inr text \<Rightarrow> if js_truthy text then writer_write (TextFrame text) s1 else s1)"

fun step_part000 :: "jsval event \<Rightarrow> session \<Rightarrow> session" where
  "step_part000 Tick s = (if IntervalId \<in> live s then writer_write WaitingLine s else s)"
| "step_part000 (Elapse d) s = s\<lparr>clock := clock s + int d\<rparr>"
| "step_part000 Deadline s =
     (if TimeoutId \<in> live s then
        let s1 = controller_abort s in
        if pc s1 = Finished then s1 else throw_part000 AbortError s1
      else s)"
| "step_part000 (FetchResolved r) s =
     (case pc s of
        AwaitFetch \<Rightarrow>
          if body_is_null r then throw_part000 (TypeError ''res.body is not async iterable'') s
          else s\<lparr>pc := AwaitRead, isFirstChunk := True\<rparr>
      | _ \<Rightarrow> s)"
| "step_part000 (FetchRejected e) s =
     (case pc s of AwaitFetch \<Rightarrow> throw_part000 e s | _ \<Rightarrow> s)"
| "step_part000 (ReadResolved chunk isDone) s =
     (case pc s of
        AwaitRead \<Rightarrow> if isDone then finally_part000 s else loop_body_part000 chunk s
      | _ \<Rightarrow> s)"
| "step_part000 (ReadRejected e) s =
     (case pc s of AwaitRead \<Rightarrow> throw_part000 e s | _ \<Rightarrow> s)"
| "step_part000 ev s = s"

definition run_part000 :: "jsval event list \<Rightarrow> session \<Rightarrow> session" where
  "run_part000 evs s = fold step_part000 evs s"

section \<open>Invariants of a session\<close>

text \<open>
  The shape of an output stream: heartbeat frames, then at most one time-cost frame, then
  relayed and error frames only. \<open>ctrl\<close> relates the program counter, the timers and
  the trace of a google.ts session; \<open>phase\<close> says that only heartbeat frames have been
  written while the function still waits for the upstream response; \<open>ends\<close> lists the
  events that make the function leave through its \<^verbatim>\<open>finally\<close> block.
\<close>

fun is_time_cost :: "frame \<Rightarrow> bool" where
  "is_time_cost (TimeCost b ms) = True"
| "is_time_cost f = False"

fun shape :: "frame list \<Rightarrow> bool" where
  "shape [] = True"
| "shape (f # fs) =
     (if is_heartbeat f then shape fs
      else if is_time_cost f then list_all (\<lambda>g. is_relayed g \<or> is_error_frame g) fs
      else list_all (\<lambda>g. is_relayed g \<or> is_error_frame g) (f # fs))"

fun is_waiting :: "pc \<Rightarrow> bool" where
  "is_waiting AwaitFetch = True"
| "is_waiting (AwaitText r) = True"
| "is_waiting p = False"

definition ctrl :: "session \<Rightarrow> bool" where
  "ctrl s =
     ((pc s = Finished \<longrightarrow>
         closes (trace s) = 1 \<and> TimeoutId \<notin> live s \<and> IntervalRealWrite \<notin> live s \<and>
         ClearTimeout TimeoutId \<in> set (trace s)) \<and>
      (pc s \<noteq> Finished \<longrightarrow> closes (trace s) = 0 \<and> TimeoutId \<in> live s) \<and>
      (pc s = AwaitRead \<longrightarrow> \<not> isFirstChunk s) \<and>
      IntervalId \<notin> live s \<and>
      (IntervalRealWrite \<in> live s \<longrightarrow>
         is_waiting (pc s) \<and> intervalRealWrite s = Some IntervalRealWrite) \<and>
      (intervalRealWrite s = None \<or> intervalRealWrite s = Some IntervalRealWrite) \<and>
      (\<not> is_waiting (pc s) \<longrightarrow> intervalRealWrite s = None) \<and>
      pending {} (trace s) = live s \<and>
      closed_clean {} (trace s))"

definition phase :: "session \<Rightarrow> bool" where
  "phase s = (shape (out s) \<and> (is_waiting (pc s) \<longrightarrow> list_all is_heartbeat (out s)))"

fun ends :: "pc \<Rightarrow> bytes option event \<Rightarrow> bool" where
  "ends Finished ev = False"
| "ends p Deadline = True"
| "ends AwaitFetch (FetchRejected e) = True"
| "ends AwaitFetch (FetchResolved r) = (ok r \<and> body_is_null r)"
| "ends (AwaitText r) (TextResolved b) = True"
| "ends (AwaitText r) (TextRejected e) = True"
| "ends AwaitRead (ReadResolved v isDone) = isDone"
| "ends AwaitRead (ReadRejected e) = True"
| "ends p ev = False"

text \<open>
  The same for a session of part_000, whose only interval is \<open>IntervalId\<close> and whose
  variable \<^verbatim>\<open>intervalId\<close> is never reset.
\<close>

definition ctrl_part000 :: "session \<Rightarrow> bool" where
  "ctrl_part000 s =
     ((pc s = Finished \<longrightarrow>
         closes (trace s) = 1 \<and> TimeoutId \<notin> live s \<and> IntervalId \<notin> live s \<and>
         ClearTimeout TimeoutId \<in> set (trace s)) \<and>
      (pc s \<noteq> Finished \<longrightarrow> closes (trace s) = 0 \<and> TimeoutId \<in> live s) \<and>
      IntervalRealWrite \<notin> live s \<and>
      intervalId s = Some IntervalId \<and>
      pending {} (trace s) = live s \<and>
      closed_clean {} (trace s))"

fun ends_part000 :: "pc \<Rightarrow> jsval event \<Rightarrow> bool" where
  "ends_part000 Finished ev = False"
| "ends_part000 p Deadline = True"
| "ends_part000 AwaitFetch (FetchRejected e) = True"
| "ends_part000 AwaitFetch (FetchResolved r) = body_is_null r"
| "ends_part000 AwaitRead (ReadResolved chunk isDone) = (isDone \<or> isl (chunk_text chunk))"
| "ends_part000 AwaitRead (ReadRejected e) = True"
| "ends_part000 p ev = False"

text \<open>
  The chunks a list of events delivers to the copy loop of google.ts before the loop
  ends, and the query string of a URL (from its first question mark on).
\<close>

fun chunks_of :: "bytes option event list \<Rightarrow> bytes list" where
  "chunks_of [] = []"
| "chunks_of (ReadResolved v isDone # evs) =
     (case v of None \<Rightarrow> [] | Some chunk \<Rightarrow> [chunk]) @ (if isDone then [] else chunks_of evs)"
| "chunks_of (ReadRejected e # evs) = []"
| "chunks_of (Deadline # evs) = []"
| "chunks_of (ev # evs) = chunks_of evs"

definition query_of :: "string \<Rightarrow> string" where
  "query_of u = dropWhile (\<lambda>c. c \<noteq> CHR ''?'') u"


section \<open>Example inputs\<close>

definition example_constants :: constants where
  "example_constants =
     \<lparr>ApiPath_Google = ''/api/google'',
      GEMINI_BASE_URL = ''https://generativelanguage.googleapis.com/''\<rparr>"

definition example_config :: serverConfig where
  "example_config = \<lparr>googleApiKey = Some ''server-key'', googleUrl = None\<rparr>"

definition example_request :: NextRequest where
  "example_request =
     \<lparr>req_method = ''POST'', headers = [],
      pathname = ''/api/google/v1beta/models/gemini-pro:streamGenerateContent'',
      searchParams = [(''alt'', ''sse''), (''key'', ''abc'')],
      body = None\<rparr>"

definition example_session :: session where
  "example_session = snd (request example_constants example_config 0 example_request ''server-key'')"

definition example_ok :: res where
  "example_ok = \<lparr>status = 200, statusText = ''OK'', body_is_null = False\<rparr>"

definition example_500 :: res where
  "example_500 = \<lparr>status = 500, statusText = ''Internal Server Error'', body_is_null = False\<rparr>"

definition example_session_part000 :: session where
  "example_session_part000 =
     snd (request_part000 example_constants example_config 0 example_request ''server-key'')"

definition example_auth :: "NextRequest \<Rightarrow> auth_result \<times> NextRequest" where
  "example_auth req = (\<lparr>error = False, msg = ''''\<rparr>, req)"


definition example_no_key :: serverConfig where
  "example_no_key = \<lparr>googleApiKey = None, googleUrl = None\<rparr>"

definition example_chunk :: jsval where
  "example_chunk =
     JObject [(''choices'', JArray [JObject [(''delta'', JObject [(''content'', JStr ''hi'')])]])]"

definition example_empty_chunk :: jsval where
  "example_empty_chunk =
     JObject [(''choices'', JArray [JObject [(''delta'', JObject [(''content'', JStr '''')])]])]"

section \<open>Auxiliary lemmas\<close>

lemma output_stream_append:
  "output_stream (es @ fs) =
     (if Close \<in> set es then output_stream es else output_stream es @ output_stream fs)"
  by (induction es rule: output_stream.induct) simp_all

lemma closes_append: "closes (es @ fs) = closes es + closes fs"
  by (induction es rule: closes.induct) simp_all

lemma closes_zero: "(closes es = 0) = (Close \<notin> set es)"
  by (induction es rule: closes.induct) simp_all

lemma pending_append: "pending T (es @ fs) = pending (pending T es) fs"
  by (induction T es rule: pending.induct) simp_all

lemma closed_clean_append:
  "closed_clean T (es @ fs) = (closed_clean T es \<and> closed_clean (pending T es) fs)"
  by (induction T es rule: closed_clean.induct) (simp_all add: pending_append)

lemma timer_set_empty:
  "(T = {}) = (TimeoutId \<notin> T \<and> IntervalId \<notin> T \<and> IntervalRealWrite \<notin> T)"
proof
  assume "TimeoutId \<notin> T \<and> IntervalId \<notin> T \<and> IntervalRealWrite \<notin> T"
  then have "t \<notin> T" for t by (cases t) simp_all
  then show "T = {}" by blast
qed simp

lemma shape_append:
  "shape (fs @ gs) =
     (if list_all is_heartbeat fs then shape gs else shape fs \<and> list_all (\<lambda>g. is_relayed g \<or> is_error_frame g) gs)"
  by (induction fs rule: shape.induct) auto

lemma shape_decompose:
  "shape fs \<Longrightarrow>
   \<exists>hs ts rs. fs = hs @ ts @ rs \<and> list_all is_heartbeat hs \<and>
     (ts = [] \<or> (\<exists>b ms. ts = [TimeCost b ms])) \<and> list_all (\<lambda>g. is_relayed g \<or> is_error_frame g) rs"
proof (induction fs rule: shape.induct)
  case 1
  then show ?case by simp
next
  case (2 f fs)
  show ?case
  proof (cases "is_heartbeat f")
    case True
    from "2.prems" True have "shape fs" by simp
    from "2.IH" [OF True this] obtain hs ts rs where
      "fs = hs @ ts @ rs" "list_all is_heartbeat hs"
      "ts = [] \<or> (\<exists>b ms. ts = [TimeCost b ms])" "list_all (\<lambda>g. is_relayed g \<or> is_error_frame g) rs"
      by blast
    with True have
      "f # fs = (f # hs) @ ts @ rs \<and> list_all is_heartbeat (f # hs) \<and>
       (ts = [] \<or> (\<exists>b ms. ts = [TimeCost b ms])) \<and> list_all (\<lambda>g. is_relayed g \<or> is_error_frame g) rs"
      by simp
    then show ?thesis by blast
  next
    case False
    show ?thesis
    proof (cases "is_time_cost f")
      case True
      then obtain b ms where "f = TimeCost b ms" by (cases f) simp_all
      with 2 False have
        "f # fs = [] @ [TimeCost b ms] @ fs \<and> list_all is_heartbeat [] \<and>
         ([TimeCost b ms] = [] \<or> (\<exists>b' ms'. [TimeCost b ms] = [TimeCost b' ms'])) \<and>
         list_all (\<lambda>g. is_relayed g \<or> is_error_frame g) fs"
        by simp
      then show ?thesis by blast
    next
      case nt: False
      with 2 False have
        "f # fs = [] @ [] @ (f # fs) \<and> list_all is_heartbeat [] \<and> list_all (\<lambda>g. is_relayed g \<or> is_error_frame g) (f # fs)"
        by simp
      then show ?thesis by blast
    qed
  qed
qed

lemma spliced_not_heartbeat:
  "list_all (\<lambda>g. is_relayed g \<or> is_error_frame g) fs \<Longrightarrow>
   list_all (\<lambda>g. \<not> is_heartbeat g) fs"
proof (induction fs)
  case Nil
  then show ?case by simp
next
  case (Cons f fs)
  then show ?case by (cases f) simp_all
qed

lemma shape_no_heartbeat_after:
  "shape fs \<Longrightarrow> fs = xs @ f # ys \<Longrightarrow> \<not> is_heartbeat f \<Longrightarrow>
   list_all (\<lambda>g. \<not> is_heartbeat g) ys"
proof (induction xs arbitrary: fs)
  case Nil
  then show ?case by (auto dest: spliced_not_heartbeat split: if_splits)
next
  case (Cons x xs)
  show ?case
  proof (cases "is_heartbeat x")
    case True
    with Cons.prems have "shape (xs @ f # ys)" by simp
    from Cons.IH [OF this refl Cons.prems(3)] show ?thesis .
  next
    case False
    with Cons.prems have "list_all (\<lambda>g. is_relayed g \<or> is_error_frame g) (xs @ f # ys)"
      by (auto split: if_splits)
    then have "list_all (\<lambda>g. is_relayed g \<or> is_error_frame g) ys" by simp
    then show ?thesis by (rule spliced_not_heartbeat)
  qed
qed

lemmas blocks =
  writer_write_def writer_close_def clearTimeout_def clearInterval_def controller_abort_def
  silent_tick_def real_write_tick_def stop_intervalId_def stop_intervalRealWrite_def
  stop_ticker_def first_chunk_def catch_block_def finally_block_def
  USE_INTERVAL_REAL_WRITE_def

lemma ctrl_request: "ctrl (snd (request C cfg now req key))"
  by (auto simp: ctrl_def request_def USE_INTERVAL_REAL_WRITE_def)

lemma ctrl_step: "ctrl s \<Longrightarrow> ctrl (step e s)"
  by (cases e; cases "pc s"; cases "intervalRealWrite s")
     (simp_all add: ctrl_def blocks Let_def closes_append pending_append closed_clean_append
        timer_set_empty split: option.splits)

lemma ctrl_run: "ctrl s \<Longrightarrow> ctrl (run evs s)"
  unfolding run_def by (induction evs arbitrary: s) (simp_all add: ctrl_step)

lemma phase_request: "phase (snd (request C cfg now req key))"
  by (simp add: phase_def request_def out_def)

lemma phase_step: "ctrl s \<Longrightarrow> phase s \<Longrightarrow> phase (step e s)"
  by (cases e; cases "pc s"; cases "intervalRealWrite s")
     (simp_all add: ctrl_def phase_def out_def blocks Let_def output_stream_append shape_append
        closes_zero upstream_error_frame_def split: option.splits)

lemma phase_run: "ctrl s \<Longrightarrow> phase s \<Longrightarrow> phase (run evs s)"
  unfolding run_def by (induction evs arbitrary: s) (simp_all add: ctrl_step phase_step)

lemma finished_step:
  "ctrl s \<Longrightarrow> pc s = Finished \<Longrightarrow> step e s = s\<lparr>clock := clock (step e s)\<rparr>"
  by (cases e) (simp_all add: ctrl_def)

lemma ends_step: "ctrl s \<Longrightarrow> (pc (step e s) = Finished) = (pc s = Finished \<or> ends (pc s) e)"
  by (cases e; cases "pc s")
     (simp_all add: ctrl_def blocks Let_def split: option.splits)
lemma reach_ctrl: "ctrl (run evs (snd (request C cfg now req key)))"
  by (simp add: ctrl_run ctrl_request)

lemma reach_phase: "phase (run evs (snd (request C cfg now req key)))"
  by (simp add: phase_run ctrl_request phase_request)

lemmas blocks_part000 =
  writer_write_def writer_close_def clearTimeout_def clearInterval_def controller_abort_def
  finally_part000_def throw_part000_def loop_body_part000_def

lemma ctrl_request_part000: "ctrl_part000 (snd (request_part000 C cfg now req key))"
  by (auto simp: ctrl_part000_def request_part000_def)

lemma ctrl_step_part000: "ctrl_part000 s \<Longrightarrow> ctrl_part000 (step_part000 e s)"
  by (cases e; cases "pc s")
     (simp_all add: ctrl_part000_def blocks_part000 Let_def closes_append pending_append
        closed_clean_append timer_set_empty split: sum.splits)

lemma ctrl_run_part000: "ctrl_part000 s \<Longrightarrow> ctrl_part000 (run_part000 evs s)"
  unfolding run_part000_def by (induction evs arbitrary: s) (simp_all add: ctrl_step_part000)

lemma reach_ctrl_part000: "ctrl_part000 (run_part000 evs (snd (request_part000 C cfg now req key)))"
  by (simp add: ctrl_run_part000 ctrl_request_part000)

lemma ends_step_part000:
  "ctrl_part000 s \<Longrightarrow>
   (pc (step_part000 e s) = Finished) = (pc s = Finished \<or> ends_part000 (pc s) e)"
  by (cases e; cases "pc s")
     (simp_all add: ctrl_part000_def blocks_part000 Let_def split: sum.splits)

lemma ctrl_closes: "ctrl s \<Longrightarrow> closes (trace s) \<le> 1 \<and> (closes (trace s) = 1) = (pc s = Finished)"
  by (cases "pc s = Finished") (simp_all add: ctrl_def)

lemma ctrl_closes_part000:
  "ctrl_part000 s \<Longrightarrow> closes (trace s) \<le> 1 \<and> (closes (trace s) = 1) = (pc s = Finished)"
  by (cases "pc s = Finished") (simp_all add: ctrl_part000_def)

lemmas example_run =
  run_def example_session_def request_def example_ok_def example_500_def ok_def blocks out_def
  upstream_failed_def upstream_error_frame_def

lemmas example_run_part000 =
  run_part000_def example_session_part000_def request_part000_def example_ok_def
  blocks_part000 out_def chunk_text_def

lemma stop_ticker_twice: "stop_ticker (stop_ticker s) = stop_ticker s"
  by (cases "intervalRealWrite s") (simp_all add: blocks)

lemma out_stop_ticker: "out (stop_ticker s) = out s"
  by (cases "intervalRealWrite s") (simp_all add: blocks out_def output_stream_append)

lemma tick_after_stop: "ctrl s \<Longrightarrow> step Tick (stop_ticker s) = stop_ticker s"
  by (cases "intervalRealWrite s") (auto simp: blocks ctrl_def)

lemma stop_when_relaying: "ctrl s \<Longrightarrow> \<not> is_waiting (pc s) \<Longrightarrow> stop_ticker s = s"
  by (simp add: blocks ctrl_def)

lemma finished_run: "ctrl s \<Longrightarrow> pc s = Finished \<Longrightarrow> filter is_relayed (out (run evs s)) = filter is_relayed (out s)"
proof (induction evs arbitrary: s)
  case Nil
  then show ?case by (simp add: run_def)
next
  case (Cons e evs)
  from finished_step [OF Cons.prems] have eq: "step e s = s\<lparr>clock := clock (step e s)\<rparr>" .
  have 1: "ctrl (step e s)" using Cons.prems(1) by (rule ctrl_step)
  have 2: "pc (step e s) = Finished" by (subst eq) (simp add: Cons.prems)
  have 3: "out (step e s) = out s" by (subst eq) (simp add: out_def)
  from Cons.IH [OF 1 2] 3 show ?case by (simp add: run_def)
qed

lemma chunks_of_Cons:
  "chunks_of (e # evs) =
     (case e of ReadResolved (Some chunk) isDone \<Rightarrow> [chunk] | _ \<Rightarrow> []) @
     (if ends AwaitRead e then [] else chunks_of evs)"
  by (cases e) (simp_all split: option.splits)

lemma relay_step:
  "ctrl s \<Longrightarrow> pc s = AwaitRead \<Longrightarrow>
   filter is_relayed (out (step e s)) =
     filter is_relayed (out s) @
     map Relayed (case e of ReadResolved (Some chunk) isDone \<Rightarrow> [chunk] | _ \<Rightarrow> []) \<and>
   (if ends AwaitRead e then pc (step e s) = Finished else pc (step e s) = AwaitRead)"
  by (cases e)
     (auto simp: ctrl_def blocks Let_def out_def output_stream_append closes_zero
        split: option.splits)

lemma relay_run:
  "ctrl s \<Longrightarrow> pc s = AwaitRead \<Longrightarrow>
   filter is_relayed (out (run evs s)) = filter is_relayed (out s) @ map Relayed (chunks_of evs)"
proof (induction evs arbitrary: s)
  case Nil
  then show ?case by (simp add: run_def)
next
  case (Cons e evs)
  note st = relay_step [OF Cons.prems, of e]
  have c: "ctrl (step e s)" using Cons.prems(1) by (rule ctrl_step)
  have r: "run (e # evs) s = run evs (step e s)" by (simp add: run_def)
  show ?case
  proof (cases "ends AwaitRead e")
    case True
    with st have "pc (step e s) = Finished" by simp
    from finished_run [OF c this] st True show ?thesis
      by (simp add: r chunks_of_Cons)
  next
    case False
    with st have "pc (step e s) = AwaitRead" by simp
    from Cons.IH [OF c this] st False show ?thesis
      by (simp add: r chunks_of_Cons)
  qed
qed

lemma relay_chunks:
  "ctrl s \<Longrightarrow> pc s = AwaitRead \<Longrightarrow>
   out (run (map (\<lambda>c. ReadResolved (Some c) False) cs) s) = out s @ map Relayed cs \<and>
   pc (run (map (\<lambda>c. ReadResolved (Some c) False) cs) s) = AwaitRead \<and>
   ctrl (run (map (\<lambda>c. ReadResolved (Some c) False) cs) s)"
proof (induction cs arbitrary: s)
  case Nil
  then show ?case by (simp add: run_def)
next
  case (Cons c cs)
  let ?s = "step (ReadResolved (Some c) False) s"
  have 1: "ctrl ?s" using Cons.prems(1) by (rule ctrl_step)
  have 2: "pc ?s = AwaitRead \<and> out ?s = out s @ [Relayed c]"
    using Cons.prems
    by (simp add: ctrl_def blocks Let_def out_def output_stream_append closes_zero)
  from Cons.IH [OF 1] 2 show ?case by (simp add: run_def)
qed

lemma relay_end:
  "ctrl s \<Longrightarrow> pc s = AwaitRead \<Longrightarrow> out (step (ReadResolved None True) s) = out s"
  by (simp add: ctrl_def blocks Let_def out_def output_stream_append closes_zero)

lemma relay_every_chunk_written:
  "let s = run evs (snd (request C cfg now req key)) in
     pc s = AwaitRead \<longrightarrow>
       filter is_relayed (out (run evs' s)) =
         filter is_relayed (out s) @ map Relayed (chunks_of evs') \<and>
       out (run (map (\<lambda>c. ReadResolved (Some c) False) cs @ [ReadResolved None True]) s) =
         out s @ map Relayed cs"
proof -
  define s where "s = run evs (snd (request C cfg now req key))"
  have c: "ctrl s" unfolding s_def by (rule reach_ctrl)
  have "filter is_relayed (out (run evs' s)) =
         filter is_relayed (out s) @ map Relayed (chunks_of evs') \<and>
       out (run (map (\<lambda>c. ReadResolved (Some c) False) cs @ [ReadResolved None True]) s) =
         out s @ map Relayed cs"
    if r: "pc s = AwaitRead"
  proof -
    note ch = relay_chunks [OF c r, of cs]
    from ch have "out (step (ReadResolved None True)
          (run (map (\<lambda>c. ReadResolved (Some c) False) cs) s)) = out s @ map Relayed cs"
      using relay_end by simp
    then show ?thesis using relay_run [OF c r] by (simp add: run_def)
  qed
  then show ?thesis unfolding s_def [symmetric] Let_def by blast
qed

lemma token_absent:
  "headers_get (headers req) ''x-goog-api-key'' = None \<Longrightarrow>
   headers_get (headers req) ''Authorization'' = None \<Longrightarrow> token req = []"
  by (simp add: token_def bearToken_def js_or_def or_default_def truthy_def trim_def replaceAll_def)



lemma query_of_append:
  "CHR ''?'' \<notin> set b \<Longrightarrow> query_of (b @ q) = query_of q"
  by (induction b) (auto simp: query_of_def)

section \<open>The claims\<close>

text \<open>
  C1. In every google.ts session, whatever the events and their order, the output stream
  is a run of heartbeat frames, then at most one time-cost frame (the transitional frame
  the copy loop writes as it stops the ticker), then relayed and error frames only. No
  heartbeat frame follows a frame that is not a heartbeat; as soon as such a frame has
  been written no interval is scheduled any more, and a further tick writes nothing.
\<close>

theorem heartbeats_before_relay:
  "let s = run evs (snd (request C cfg now req key)) in
     (\<exists>hs ts rs. out s = hs @ ts @ rs \<and> list_all is_heartbeat hs \<and>
        (ts = [] \<or> (\<exists>b ms. ts = [TimeCost b ms])) \<and>
        list_all (\<lambda>f. is_relayed f \<or> is_error_frame f) rs) \<and>
     (\<forall>xs f ys. out s = xs @ f # ys \<and> \<not> is_heartbeat f \<longrightarrow>
        list_all (\<lambda>g. \<not> is_heartbeat g) ys) \<and>
     ((\<exists>f \<in> set (out s). \<not> is_heartbeat f) \<longrightarrow>
        IntervalRealWrite \<notin> live s \<and> IntervalId \<notin> live s \<and> out (step Tick s) = out s)"
proof -
  define s where "s = run evs (snd (request C cfg now req key))"
  have c: "ctrl s" and p: "phase s"
    unfolding s_def by (rule reach_ctrl, rule reach_phase)
  from p have sh: "shape (out s)" by (simp add: phase_def)
  have 0: "\<forall>xs f ys. out s = xs @ f # ys \<and> \<not> is_heartbeat f \<longrightarrow>
        list_all (\<lambda>g. \<not> is_heartbeat g) ys"
    using shape_no_heartbeat_after [OF sh] by blast
  from shape_decompose [OF sh] have 1:
    "\<exists>hs ts rs. out s = hs @ ts @ rs \<and> list_all is_heartbeat hs \<and>
        (ts = [] \<or> (\<exists>b ms. ts = [TimeCost b ms])) \<and>
        list_all (\<lambda>f. is_relayed f \<or> is_error_frame f) rs"
    by simp
  have 2: "IntervalRealWrite \<notin> live s \<and> IntervalId \<notin> live s \<and> out (step Tick s) = out s"
    if "\<exists>f \<in> set (out s). \<not> is_heartbeat f"
  proof -
    from that have "\<not> list_all is_heartbeat (out s)" by (simp add: list_all_iff)
    with p have "\<not> is_waiting (pc s)" by (auto simp: phase_def)
    with c have "IntervalRealWrite \<notin> live s" "IntervalId \<notin> live s" by (auto simp: ctrl_def)
    then show ?thesis by simp
  qed
  from 0 1 2 show ?thesis unfolding s_def [symmetric] Let_def by blast
qed

theorem heartbeats_before_relay_witness:
  "(\<exists>hs ts rs.
      out (run [Tick, Tick, FetchResolved example_ok, Tick, ReadResolved (Some [104, 105]) False]
             example_session) = hs @ ts @ rs \<and>
      list_all is_heartbeat hs \<and> (ts = [] \<or> (\<exists>b ms. ts = [TimeCost b ms])) \<and>
      list_all (\<lambda>f. is_relayed f \<or> is_error_frame f) rs) \<and>
   out (run [Tick, Tick, FetchResolved example_ok, Tick, ReadResolved (Some [104, 105]) False]
          example_session) =
     [Heartbeat ''> Waiting.'', Heartbeat ''.'', TimeCost False 0, Relayed [104, 105]] \<and>
   IntervalRealWrite \<notin>
     live (run [Tick, Tick, FetchResolved example_ok, Tick, ReadResolved (Some [104, 105]) False]
             example_session)"
proof -
  have o: "out (run [Tick, Tick, FetchResolved example_ok, Tick, ReadResolved (Some [104, 105]) False]
          example_session) =
     [Heartbeat ''> Waiting.'', Heartbeat ''.'', TimeCost False 0, Relayed [104, 105]]"
    by (simp add: run_def example_session_def request_def example_ok_def ok_def blocks out_def)
  from heartbeats_before_relay
    [of "[Tick, Tick, FetchResolved example_ok, Tick, ReadResolved (Some [104, 105]) False]"
        example_constants example_config 0 example_request "''server-key''"]
  show ?thesis
    unfolding Let_def example_session_def [symmetric] by (simp add: o)
qed

text \<open>
  C2. In every session of google.ts and of part_000 the writer is closed at most once,
  and exactly once when the function has finished; whenever it is closed no timer is
  pending (the deadline timer and the interval were cleared before). The function
  finishes on exactly the events listed by \<open>ends\<close> (end of the upstream body, a rejected
  fetch, read or body text, the upstream HTTP error, the deadline), and until then the
  deadline timer stays scheduled.
\<close>

theorem writer_closed_exactly_once:
  "let s = run evs (snd (request C cfg now req key));
       s0 = run_part000 evs0 (snd (request_part000 C cfg now req key))
   in (closes (trace s) \<le> 1 \<and> (closes (trace s) = 1) = (pc s = Finished) \<and>
       closed_clean {} (trace s) \<and>
       (pc s = Finished \<longrightarrow> ClearTimeout TimeoutId \<in> set (trace s) \<and> live s = {}) \<and>
       (pc s \<noteq> Finished \<longrightarrow> TimeoutId \<in> live s) \<and>
       (pc (step e s) = Finished) = (pc s = Finished \<or> ends (pc s) e)) \<and>
      (closes (trace s0) \<le> 1 \<and> (closes (trace s0) = 1) = (pc s0 = Finished) \<and>
       closed_clean {} (trace s0) \<and>
       (pc s0 = Finished \<longrightarrow> ClearTimeout TimeoutId \<in> set (trace s0) \<and> live s0 = {}) \<and>
       (pc s0 \<noteq> Finished \<longrightarrow> TimeoutId \<in> live s0) \<and>
       (pc (step_part000 e0 s0) = Finished) = (pc s0 = Finished \<or> ends_part000 (pc s0) e0))"
proof -
  define s where "s = run evs (snd (request C cfg now req key))"
  define s0 where "s0 = run_part000 evs0 (snd (request_part000 C cfg now req key))"
  have c: "ctrl s" unfolding s_def by (rule reach_ctrl)
  have c0: "ctrl_part000 s0" unfolding s0_def by (rule reach_ctrl_part000)
  have 1: "closed_clean {} (trace s)" "pc s \<noteq> Finished \<longrightarrow> TimeoutId \<in> live s"
    "pc s = Finished \<longrightarrow> ClearTimeout TimeoutId \<in> set (trace s) \<and> live s = {}"
    using c by (simp_all add: ctrl_def timer_set_empty)
  have 2: "closed_clean {} (trace s0)" "pc s0 \<noteq> Finished \<longrightarrow> TimeoutId \<in> live s0"
    "pc s0 = Finished \<longrightarrow> ClearTimeout TimeoutId \<in> set (trace s0) \<and> live s0 = {}"
    using c0 by (simp_all add: ctrl_part000_def timer_set_empty)
  show ?thesis
    unfolding s_def [symmetric] s0_def [symmetric] Let_def
    using ctrl_closes [OF c] ctrl_closes_part000 [OF c0] 1 2 ends_step [OF c]
      ends_step_part000 [OF c0]
    by simp
qed

theorem writer_closed_exactly_once_witness:
  "closes (trace (run [Tick, FetchResolved example_ok, ReadResolved (Some [104, 105]) False,
                       ReadResolved None True] example_session)) = 1 \<and>
   pc (run [Tick, FetchResolved example_ok, ReadResolved (Some [104, 105]) False,
            ReadResolved None True] example_session) = Finished \<and>
   closed_clean {} (trace (run [Tick, FetchResolved example_ok,
      ReadResolved (Some [104, 105]) False, ReadResolved None True] example_session)) \<and>
   pc (step Deadline (run [Tick] example_session)) = Finished \<and>
   TimeoutId \<in> live (run [Tick] example_session) \<and>
   closes (trace (run_part000 [Tick, FetchResolved example_ok, ReadResolved JUndefined True]
                    example_session_part000)) = 1 \<and>
   pc (step_part000 (ReadRejected AbortError)
         (run_part000 [Tick, FetchResolved example_ok] example_session_part000)) = Finished"
proof -
  have a: "pc (run [Tick, FetchResolved example_ok, ReadResolved (Some [104, 105]) False,
            ReadResolved None True] example_session) = Finished"
    by (simp add: example_run)
  have b: "pc (run [Tick] example_session) = AwaitFetch"
    by (simp add: example_run)
  have c: "pc (run_part000 [Tick, FetchResolved example_ok, ReadResolved JUndefined True]
                    example_session_part000) = Finished"
    by (simp add: example_run_part000)
  have d: "pc (run_part000 [Tick, FetchResolved example_ok] example_session_part000) = AwaitRead"
    by (simp add: example_run_part000)
  from
    writer_closed_exactly_once
      [of "[Tick, FetchResolved example_ok, ReadResolved (Some [104, 105]) False,
            ReadResolved None True]"
          example_constants example_config 0 example_request "''server-key''"
          "[Tick, FetchResolved example_ok, ReadResolved JUndefined True]" Deadline Tick]
    writer_closed_exactly_once
      [of "[Tick]" example_constants example_config 0 example_request "''server-key''"
          "[Tick, FetchResolved example_ok]" Deadline "ReadRejected AbortError"]
  show ?thesis
    unfolding Let_def example_session_def [symmetric] example_session_part000_def [symmetric]
    by (simp add: a b c d del: step.simps step_part000.simps)
qed

text \<open>
  C3 (as amended). When the upstream answers with status 500 and the body text
  \<^verbatim>\<open>server error\<close>, the frames already written are heartbeats, and the function then
  writes two error frames, not one: the frame of line 163 with the message
  \<^verbatim>\<open>Upstream Error: 500 <statusText>\<close> and the body text, and, because line 164 throws
  into the \<^verbatim>\<open>catch\<close> block, the frame of line 211 with the message
  \<^verbatim>\<open>[Alive] Upstream fetch failed with status 500\<close>. Then the writer is closed, once;
  the response the client got has status 200.
\<close>

theorem upstream_500_two_error_frames:
  "let s = run evs (snd (request C cfg now req key));
       s' = step (TextResolved ''server error'') s
   in code (fst (request C cfg now req key)) = 200 \<and>
      (pc s = AwaitFetch \<and> status r = 500 \<longrightarrow> pc (step (FetchResolved r) s) = AwaitText r) \<and>
      (pc s = AwaitText r \<and> status r = 500 \<longrightarrow>
         list_all is_heartbeat (out s) \<and>
         out s' = out s @
           [UpstreamError (''Upstream Error: 500 '' @ statusText r) ''server error'',
            CatchFrame (Error ''[Alive] Upstream fetch failed with status 500'')] \<and>
         pc s' = Finished \<and> closes (trace s') = 1 \<and> last (trace s') = Close)"
proof -
  define s where "s = run evs (snd (request C cfg now req key))"
  have c: "ctrl s" and p: "phase s"
    unfolding s_def by (rule reach_ctrl, rule reach_phase)
  have 1: "code (fst (request C cfg now req key)) = 200"
    by (simp add: request_def)
  have 2: "pc (step (FetchResolved r) s) = AwaitText r" if "pc s = AwaitFetch \<and> status r = 500"
    using that by (simp add: ok_def)
  have 3: "list_all is_heartbeat (out s) \<and>
         out (step (TextResolved ''server error'') s) = out s @
           [UpstreamError (''Upstream Error: 500 '' @ statusText r) ''server error'',
            CatchFrame (Error ''[Alive] Upstream fetch failed with status 500'')] \<and>
         pc (step (TextResolved ''server error'') s) = Finished \<and>
         closes (trace (step (TextResolved ''server error'') s)) = 1 \<and>
         last (trace (step (TextResolved ''server error'') s)) = Close"
    if "pc s = AwaitText r \<and> status r = 500"
    using c p that
    by (cases "intervalRealWrite s")
       (auto simp: ctrl_def phase_def blocks Let_def out_def output_stream_append closes_append
          closes_zero upstream_failed_def upstream_error_frame_def)
  from 1 2 3 show ?thesis unfolding s_def [symmetric] Let_def by blast
qed

theorem upstream_500_two_error_frames_witness:
  "pc (run [Tick, FetchResolved example_500, Tick] example_session) = AwaitText example_500 \<and>
   status example_500 = 500 \<and>
   out (step (TextResolved ''server error'')
          (run [Tick, FetchResolved example_500, Tick] example_session)) =
     [Heartbeat ''> Waiting.'', Heartbeat ''.'',
      UpstreamError ''Upstream Error: 500 Internal Server Error'' ''server error'',
      CatchFrame (Error ''[Alive] Upstream fetch failed with status 500'')] \<and>
   pc (step (TextResolved ''server error'')
         (run [Tick, FetchResolved example_500, Tick] example_session)) = Finished"
proof -
  have a: "pc (run [Tick, FetchResolved example_500, Tick] example_session) = AwaitText example_500"
    by (simp add: example_run)
  have b: "out (run [Tick, FetchResolved example_500, Tick] example_session) =
      [Heartbeat ''> Waiting.'', Heartbeat ''.'']"
    by (simp add: example_run)
  have d: "status example_500 = 500" "statusText example_500 = ''Internal Server Error''"
    by (simp_all add: example_500_def)
  from upstream_500_two_error_frames
    [where evs = "[Tick, FetchResolved example_500, Tick]" and C = example_constants
       and cfg = example_config and now = 0 and req = example_request
       and key = "''server-key''" and r = example_500]
  show ?thesis
    unfolding Let_def example_session_def [symmetric]
    by (simp add: a b d del: step.simps)
qed

theorem upstream_500_one_error_frame_counterexample:
  "length (filter is_error_frame
     (out (run [FetchResolved example_500, TextResolved ''server error''] example_session))) \<noteq> 1"
  by (simp add: example_run)

text \<open>
  C4. The deadline timer is set to 10 * 60 * 1000 ms. In every google.ts session that has
  not finished the timer is still scheduled, and when it fires the request is aborted,
  one error frame (the \<^verbatim>\<open>catch\<close> block's, for the \<^verbatim>\<open>AbortError\<close>) is appended to the
  output, every timer is cleared and the writer is closed; the response status is the
  200 returned before.
\<close>

theorem deadline_aborts_and_closes:
  "let s0 = snd (request C cfg now req key); s = run evs s0; s' = step Deadline s in
     hd (trace s0) = SetTimeout TimeoutId (10 * 60 * 1000) \<and>
     code (fst (request C cfg now req key)) = 200 \<and>
     (pc s \<noteq> Finished \<longrightarrow>
        TimeoutId \<in> live s \<and> Abort \<in> set (trace s') \<and>
        out s' = out s @ [CatchFrame AbortError] \<and>
        pc s' = Finished \<and> closes (trace s') = 1 \<and> last (trace s') = Close \<and> live s' = {})"
proof -
  define s where "s = run evs (snd (request C cfg now req key))"
  have c: "ctrl s" unfolding s_def by (rule reach_ctrl)
  have 1: "hd (trace (snd (request C cfg now req key))) = SetTimeout TimeoutId (10 * 60 * 1000)"
    "code (fst (request C cfg now req key)) = 200"
    by (simp_all add: request_def timeout_delay_def)
  have 2: "TimeoutId \<in> live s \<and> Abort \<in> set (trace (step Deadline s)) \<and>
        out (step Deadline s) = out s @ [CatchFrame AbortError] \<and>
        pc (step Deadline s) = Finished \<and> closes (trace (step Deadline s)) = 1 \<and>
        last (trace (step Deadline s)) = Close \<and> live (step Deadline s) = {}"
    if "pc s \<noteq> Finished"
    using c that
    by (cases "intervalRealWrite s")
       (auto simp: ctrl_def blocks Let_def out_def output_stream_append closes_append closes_zero
          timer_set_empty)
  from 1 2 show ?thesis unfolding s_def [symmetric] Let_def by blast
qed

theorem deadline_aborts_and_closes_witness:
  "pc (run [Tick, Tick] example_session) \<noteq> Finished \<and>
   out (step Deadline (run [Tick, Tick] example_session)) =
     [Heartbeat ''> Waiting.'', Heartbeat ''.'', CatchFrame AbortError] \<and>
   pc (step Deadline (run [Tick, Tick] example_session)) = Finished \<and>
   closes (trace (step Deadline (run [Tick, Tick] example_session))) = 1 \<and>
   code (fst (request example_constants example_config 0 example_request ''server-key'')) = 200"
proof -
  have a: "pc (run [Tick, Tick] example_session) = AwaitFetch"
    by (simp add: example_run)
  have b: "out (run [Tick, Tick] example_session) = [Heartbeat ''> Waiting.'', Heartbeat ''.'']"
    by (simp add: example_run)
  from deadline_aborts_and_closes
    [where evs = "[Tick, Tick]" and C = example_constants and cfg = example_config
       and now = 0 and req = example_request and key = "''server-key''"]
  show ?thesis
    unfolding Let_def example_session_def [symmetric]
    by (simp add: a b del: step.simps)
qed

text \<open>
  C5 (the code of part_000 at a failing input). The copy loop of part_000 does not write
  the chunks it reads: on a byte chunk, which is what the body of a \<^verbatim>\<open>fetch\<close> response
  yields, \<^verbatim>\<open>chunk.choices[0]\<close> throws a \<^verbatim>\<open>TypeError\<close>, nothing is written and the
  stream is closed; on parsed objects it writes \<^verbatim>\<open>data: {"text": ...}\<close> for a chunk with
  text and drops a chunk without. The copy loop of google.ts makes one write for every
  chunk it reads, in the order read (lemma \<open>relay_every_chunk_written\<close>).
\<close>

theorem part000_rewrites_chunks:
  "out (run_part000 [FetchResolved example_ok, ReadResolved (JUint8Array [104, 105]) False]
          example_session_part000) = [] \<and>
   pc (run_part000 [FetchResolved example_ok, ReadResolved (JUint8Array [104, 105]) False]
         example_session_part000) = Finished \<and>
   last (trace (run_part000 [FetchResolved example_ok, ReadResolved (JUint8Array [104, 105]) False]
                  example_session_part000)) =
     Unhandled (TypeError ''Cannot read properties of undefined'') \<and>
   out (run_part000
          [FetchResolved example_ok, ReadResolved example_chunk False,
           ReadResolved example_empty_chunk False, ReadResolved JUndefined True]
          example_session_part000) = [TextFrame (JStr ''hi'')]"
  by (simp add: example_run_part000 example_chunk_def example_empty_chunk_def)

text \<open>
  C6 (as amended). A request that is not \<^verbatim>\<open>OPTIONS\<close>, passes \<^verbatim>\<open>auth\<close>, carries no key
  (its token, read from the two headers after \<^verbatim>\<open>auth\<close>, is empty) and finds no fallback key in the
  configuration is answered with status 401 and the body
  \<^verbatim>\<open>{error: true, message: "missing GOOGLE_API_KEY in server env vars"}\<close>; \<^verbatim>\<open>auth\<close> is
  the only effect, and no relay session is started.
\<close>

theorem missing_key_401:
  "req_method req \<noteq> ''OPTIONS'' \<Longrightarrow> \<not> error (fst (auth req)) \<Longrightarrow>
   token (snd (auth req)) = [] \<Longrightarrow> \<not> truthy (googleApiKey cfg) \<Longrightarrow>
   handle C cfg auth now req =
     \<lparr>response =
        \<lparr>code = 401, response_headers = json_headers,
         content = JsonError True ''missing GOOGLE_API_KEY in server env vars''\<rparr>,
      effects = [CallAuth], relay = None\<rparr>"
  by (simp add: handle_def apiKey_def Let_def split_beta)

theorem missing_key_401_witness:
  "req_method example_request \<noteq> ''OPTIONS'' \<and> \<not> error (fst (example_auth example_request)) \<and>
   token (snd (example_auth example_request)) = [] \<and> \<not> truthy (googleApiKey example_no_key) \<and>
   handle example_constants example_no_key example_auth 0 example_request =
     \<lparr>response =
        \<lparr>code = 401, response_headers = json_headers,
         content = JsonError True ''missing GOOGLE_API_KEY in server env vars''\<rparr>,
      effects = [CallAuth], relay = None\<rparr>"
proof -
  have a: "req_method example_request \<noteq> ''OPTIONS''" by (simp add: example_request_def)
  have b: "\<not> error (fst (example_auth example_request))" by (simp add: example_auth_def)
  have c: "token (snd (example_auth example_request)) = []"
    by (rule token_absent) (simp_all add: example_auth_def example_request_def headers_get_def)
  have d: "\<not> truthy (googleApiKey example_no_key)" by (simp add: example_no_key_def truthy_def)
  from missing_key_401
    [where req = example_request and auth = example_auth and cfg = example_no_key
       and C = example_constants and now = 0, OF a b c d]
    a b c d
  show ?thesis by simp
qed

theorem missing_key_message_counterexample:
  "content (response (handle example_constants example_no_key example_auth 0 example_request)) \<noteq>
     JsonError True ''missing API key''"
  by (simp add: handle_def example_request_def example_auth_def example_no_key_def apiKey_def
        token_def bearToken_def headers_get_def js_or_def or_default_def truthy_def trim_def
        replaceAll_def Let_def)

text \<open>
  C7. An \<^verbatim>\<open>OPTIONS\<close> request is answered with status 200 and \<^verbatim>\<open>{body: "OK"}\<close>, with no
  effect at all: \<^verbatim>\<open>auth\<close> is not called, nothing is fetched, no timer is set and no
  stream is opened.
\<close>

theorem options_short_circuit:
  "req_method req = ''OPTIONS'' \<Longrightarrow>
   handle C cfg auth now req =
     \<lparr>response = \<lparr>code = 200, response_headers = json_headers, content = JsonOk\<rparr>,
      effects = [], relay = None\<rparr>"
  by (simp add: handle_def)

theorem options_short_circuit_witness:
  "req_method (example_request\<lparr>req_method := ''OPTIONS''\<rparr>) = ''OPTIONS'' \<and>
   handle example_constants example_config example_auth 0
       (example_request\<lparr>req_method := ''OPTIONS''\<rparr>) =
     \<lparr>response = \<lparr>code = 200, response_headers = json_headers, content = JsonOk\<rparr>,
      effects = [], relay = None\<rparr>"
  using options_short_circuit
    [where req = "example_request\<lparr>req_method := ''OPTIONS''\<rparr>" and C = example_constants
       and cfg = example_config and auth = example_auth and now = 0]
  by simp

text \<open>
  C8. Stopping the ticker twice is stopping it once; a stop writes no frame, and after a
  stop a tick of the interval changes nothing. Once the copy loop has started or the
  function has finished, a stop is the identity (the \<^verbatim>\<open>finally\<close> block's stop after the
  first chunk's). The writer is never closed twice, and a finished session reacts to no
  event (only the wall clock moves).
\<close>

theorem stop_and_close_idempotent:
  "let s = run evs (snd (request C cfg now req key)) in
     stop_ticker (stop_ticker s) = stop_ticker s \<and>
     out (stop_ticker s) = out s \<and>
     step Tick (stop_ticker s) = stop_ticker s \<and>
     closes (trace s) \<le> 1 \<and>
     (pc s = AwaitRead \<or> pc s = Finished \<longrightarrow> stop_ticker s = s) \<and>
     (pc s = Finished \<longrightarrow> step e s = s\<lparr>clock := clock (step e s)\<rparr>)"
proof -
  define s where "s = run evs (snd (request C cfg now req key))"
  have c: "ctrl s" unfolding s_def by (rule reach_ctrl)
  have "pc s = AwaitRead \<or> pc s = Finished \<longrightarrow> stop_ticker s = s"
    using stop_when_relaying [OF c] by auto
  then show ?thesis
    unfolding s_def [symmetric] Let_def
    using stop_ticker_twice out_stop_ticker tick_after_stop [OF c] ctrl_closes [OF c]
      finished_step [OF c]
    by simp
qed

theorem stop_and_close_idempotent_witness:
  "stop_ticker (run [Tick, FetchResolved example_ok, ReadResolved None True] example_session) =
     run [Tick, FetchResolved example_ok, ReadResolved None True] example_session \<and>
   step Tick (run [Tick, FetchResolved example_ok, ReadResolved None True] example_session) =
     (run [Tick, FetchResolved example_ok, ReadResolved None True] example_session)
       \<lparr>clock := clock (step Tick
          (run [Tick, FetchResolved example_ok, ReadResolved None True] example_session))\<rparr> \<and>
   closes (trace (run [Tick, FetchResolved example_ok, ReadResolved None True] example_session))
     \<le> 1"
proof -
  have a: "pc (run [Tick, FetchResolved example_ok, ReadResolved None True] example_session) =
      Finished"
    by (simp add: example_run)
  from stop_and_close_idempotent
    [where evs = "[Tick, FetchResolved example_ok, ReadResolved None True]"
       and C = example_constants and cfg = example_config and now = 0
       and req = example_request and key = "''server-key''" and e = Tick]
  show ?thesis
    unfolding Let_def example_session_def [symmetric]
    by (simp add: a del: step.simps)
qed




text \<open>
  C10. The URL fetched by \<^verbatim>\<open>request\<close>, in google.ts and in part_000, is the base URL, the
  path and then \<^verbatim>\<open>?alt=sse\<close> exactly when the first \<^verbatim>\<open>alt\<close> parameter of the request is
  \<^verbatim>\<open>sse\<close>: when base URL and path hold no question mark, that is the whole query
  string. Two requests that differ only in their query parameters, and not in whether
  \<^verbatim>\<open>alt\<close> is \<^verbatim>\<open>sse\<close>, have the same effects.
\<close>

theorem only_alt_sse_forwarded:
  "let u = fetchUrl C cfg req in
     (CHR ''?'' \<notin> set (baseUrl C cfg @ path C req) \<longrightarrow>
        query_of u =
          (if searchParams_get (searchParams req) ''alt'' = Some ''sse'' then ''?alt=sse''
           else '''')) \<and>
     ((searchParams_get ps ''alt'' = Some ''sse'') =
        (searchParams_get (searchParams req) ''alt'' = Some ''sse'') \<longrightarrow>
        fetchUrl C cfg (req\<lparr>searchParams := ps\<rparr>) = u \<and>
        trace (snd (request C cfg now (req\<lparr>searchParams := ps\<rparr>) key)) =
          trace (snd (request C cfg now req key)) \<and>
        trace (snd (request_part000 C cfg now (req\<lparr>searchParams := ps\<rparr>) key)) =
          trace (snd (request_part000 C cfg now req key))) \<and>
     Fetch u (fetchOptions req) \<in> set (trace (snd (request C cfg now req key))) \<and>
     Fetch u (fetchOptions req) \<in> set (trace (snd (request_part000 C cfg now req key)))"
proof -
  have 1: "query_of (fetchUrl C cfg req) =
          (if searchParams_get (searchParams req) ''alt'' = Some ''sse'' then ''?alt=sse''
           else '''')"
    if "CHR ''?'' \<notin> set (baseUrl C cfg @ path C req)"
  proof -
    have "fetchUrl C cfg req = (baseUrl C cfg @ path C req) @
        (if searchParams_get (searchParams req) ''alt'' = Some ''sse'' then ''?alt=sse'' else '''')"
      by (simp add: fetchUrl_def)
    then have "query_of (fetchUrl C cfg req) = query_of
        (if searchParams_get (searchParams req) ''alt'' = Some ''sse'' then ''?alt=sse'' else '''')"
      using query_of_append [OF that] by simp
    then show ?thesis by (simp add: query_of_def)
  qed
  have 2: "fetchUrl C cfg (req\<lparr>searchParams := ps\<rparr>) = fetchUrl C cfg req \<and>
        trace (snd (request C cfg now (req\<lparr>searchParams := ps\<rparr>) key)) =
          trace (snd (request C cfg now req key)) \<and>
        trace (snd (request_part000 C cfg now (req\<lparr>searchParams := ps\<rparr>) key)) =
          trace (snd (request_part000 C cfg now req key))"
    if "(searchParams_get ps ''alt'' = Some ''sse'') =
        (searchParams_get (searchParams req) ''alt'' = Some ''sse'')"
    using that
    by (simp add: fetchUrl_def path_def fetchOptions_def request_def request_part000_def)
  have 3: "Fetch (fetchUrl C cfg req) (fetchOptions req) \<in> set (trace (snd (request C cfg now req key)))"
    "Fetch (fetchUrl C cfg req) (fetchOptions req) \<in>
       set (trace (snd (request_part000 C cfg now req key)))"
    by (simp_all add: request_def request_part000_def)
  from 1 2 3 show ?thesis unfolding Let_def by blast
qed

theorem only_alt_sse_forwarded_witness:
  "CHR ''?'' \<notin> set (baseUrl example_constants example_config @ path example_constants example_request) \<and>
   query_of (fetchUrl example_constants example_config example_request) = ''?alt=sse'' \<and>
   fetchUrl example_constants example_config (example_request\<lparr>searchParams := [(''alt'', ''sse'')]\<rparr>) =
     fetchUrl example_constants example_config example_request \<and>
   fetchUrl example_constants example_config example_request =
     ''https://generativelanguage.googleapis.com/v1beta/models/gemini-pro:streamGenerateContent?alt=sse''"
proof -
  have a: "baseUrl example_constants example_config = ''https://generativelanguage.googleapis.com''"
    by (simp add: baseUrl_def example_constants_def example_config_def or_default_def truthy_def
          startsWith_def endsWith_def)
  have b: "path example_constants example_request =
      ''/v1beta/models/gemini-pro:streamGenerateContent''"
    by (simp add: path_def example_constants_def example_request_def replaceAll_def startsWith_def)
  have c: "searchParams_get (searchParams example_request) ''alt'' = Some ''sse''"
    "searchParams_get [(''alt'', ''sse'')] ''alt'' = Some ''sse''"
    by (simp_all add: example_request_def searchParams_get_def)
  have d: "fetchUrl example_constants example_config example_request =
     ''https://generativelanguage.googleapis.com/v1beta/models/gemini-pro:streamGenerateContent?alt=sse''"
    by (simp add: fetchUrl_def a b c)
  from only_alt_sse_forwarded
    [where C = example_constants and cfg = example_config and req = example_request
       and ps = "[(''alt'', ''sse'')]" and now = 0 and key = "''server-key''"]
  show ?thesis
    unfolding Let_def by (simp add: a b c d)
qed

end
